theory Spec2Isabelle
  imports Complex_Main "HOL-Library.Product_Lexorder" "HOL-Library.Log_Nat" "HOL-Library.Multiset"
begin

section \<open>Data model of run.py\<close>

text \<open>
  A \<open>datetime\<close> is a naive UTC instant, counted in microseconds (the resolution of
  Python's \<open>datetime\<close>). The three tables are lists of rows in the order in which an
  unordered \<open>SELECT\<close> returns them (row-id order). Nullable columns that the handlers
  read as possibly \<open>None\<close> are options.
\<close>

type_synonym datetime = int

record user =
  u_id :: string
  email :: string
  password :: string
  role :: string
  first_name :: "string option"
  last_name :: "string option"
  specialty :: "string option"

record queue =
  q_id :: int
  user_id :: string
  doctor_id :: string
  joined_at :: datetime
  is_emergency :: bool

record consultation =
  c_id :: int
  patient_id :: "string option"
  c_doctor_id :: "string option"
  start_time :: "datetime option"
  end_time :: "datetime option"
  duration_minutes :: "int option"

record store =
  user_tbl :: "user list"
  queue_tbl :: "queue list"
  consultation_tbl :: "consultation list"

datatype error = Already_in_queue | Not_in_queue | Queue_entry_not_found | ValueError

fun status_code :: "error \<Rightarrow> nat" where
  "status_code Already_in_queue = 409"
| "status_code Not_in_queue = 404"
| "status_code Queue_entry_not_found = 404"
| "status_code ValueError = 500"

text \<open>The primary keys of the store are unique.\<close>

definition wf_store :: "store \<Rightarrow> bool" where
  "wf_store s \<longleftrightarrow>
     distinct (map u_id (user_tbl s)) \<and> distinct (map q_id (queue_tbl s)) \<and>
     distinct (map c_id (consultation_tbl s))"

text \<open>
  An integer primary key that the insert leaves out: one more than the largest key of
  the table, and 1 in an empty table.
\<close>

definition next_id :: "int list \<Rightarrow> int" where
  "next_id ks = (case ks of [] \<Rightarrow> 1 | k # rest \<Rightarrow> fold max rest k + 1)"

section \<open>User.to\_dict and the doctor listing\<close>

definition to_dict :: "user \<Rightarrow> (string \<times> string option) list" where
  "to_dict self =
     [(''id'', Some (u_id self)),
      (''email'', Some (email self)),
      (''role'', Some (role self)),
      (''first_name'', first_name self),
      (''last_name'', last_name self),
      (''specialty'', specialty self)]"

definition get_doctors :: "store \<Rightarrow> (string \<times> string option) list list" where
  "get_doctors s = map to_dict (filter (\<lambda>u. role u = ''doctor'') (user_tbl s))"

section \<open>sort\_queue\<close>

text \<open>
  \<open>sorted(queue_list, key=lambda x: (x.is_emergency, x.joined_at))\<close>: a stable sort,
  ascending in the lexicographic order of the key pairs, with \<open>False < True\<close>.
\<close>

definition sort_queue :: "queue list \<Rightarrow> queue list" where
  "sort_queue queue_list = sort_key (\<lambda>x. (is_emergency x, joined_at x)) queue_list"

section \<open>Double-precision arithmetic of the estimator\<close>

text \<open>
  \<open>sum(durations) / len(durations)\<close> is Python's true division and the product with
  the queue length a float product: each result is the exact value rounded to the
  nearest number with a 53-bit significand, ties to even. A float is modelled by the
  rational it denotes. The exponent range of a double is not modelled: the magnitudes
  that 64-bit integer columns and table sizes can produce stay far inside it.
\<close>

definition pow2 :: "int \<Rightarrow> rat" where
  "pow2 e = (if 0 \<le> e then 2 ^ nat e else 1 / 2 ^ nat (- e))"

definition ilog2 :: "rat \<Rightarrow> int" where
  "ilog2 x = (case quotient_of x of (p, q) \<Rightarrow>
     let e0 = bitlen p - bitlen q in if pow2 e0 \<le> x then e0 else e0 - 1)"

definition round_half_even :: "rat \<Rightarrow> int" where
  "round_half_even y =
     (let f = \<lfloor>y\<rfloor>; d = y - of_int f
      in if d < 1 / 2 then f else if 1 / 2 < d then f + 1 else if even f then f else f + 1)"

definition round_double :: "rat \<Rightarrow> rat" where
  "round_double x =
     (if x = 0 then 0
      else let ulp = pow2 (ilog2 \<bar>x\<bar> - 52) in of_int (round_half_even (x / ulp)) * ulp)"

definition float_div :: "int \<Rightarrow> int \<Rightarrow> rat" where
  "float_div a b = round_double (of_int a / of_int b)"

definition float_of_int :: "int \<Rightarrow> rat" where
  "float_of_int n = round_double (of_int n)"

definition float_mul :: "rat \<Rightarrow> rat \<Rightarrow> rat" where
  "float_mul x y = round_double (x * y)"

text \<open>\<open>int(x)\<close> on a float: truncation towards zero.\<close>

definition int_of_float :: "rat \<Rightarrow> int" where
  "int_of_float x = (if 0 \<le> x then \<lfloor>x\<rfloor> else \<lceil>x\<rceil>)"

section \<open>estimate\_wait\_time\<close>

definition estimate_wait_time :: "store \<Rightarrow> string \<Rightarrow> int" where
  "estimate_wait_time s doctor =
     (let historical_durations =
            map duration_minutes (filter (\<lambda>c. c_doctor_id c = Some doctor) (consultation_tbl s))
      in if historical_durations = [] then 15
         else let durations = List.map_filter (\<lambda>d. d) historical_durations
              in if durations = [] then 15
                 else let avg_duration = float_div (sum_list durations) (int (length durations));
                          queue_length = int (length (filter (\<lambda>e. doctor_id e = doctor) (queue_tbl s)));
                          estimated_time = float_mul (float_of_int queue_length) avg_duration
                      in int_of_float estimated_time)"

section \<open>join\_queue\<close>

record join_request =
  req_user_id :: string
  req_doctor_id :: string
  req_is_emergency :: "bool option"

definition join_queue :: "datetime \<Rightarrow> join_request \<Rightarrow> store \<Rightarrow> (error + string) \<times> store" where
  "join_queue now data s =
     (let is_emergency_flag = (case req_is_emergency data of None \<Rightarrow> False | Some b \<Rightarrow> b);
          existing_queue = find (\<lambda>e. user_id e = req_user_id data) (queue_tbl s)
      in case existing_queue of
           Some _ \<Rightarrow> (Inl Already_in_queue, s)
         | None \<Rightarrow>
             let new_queue_entry =
                   \<lparr>q_id = next_id (map q_id (queue_tbl s)), user_id = req_user_id data,
                    doctor_id = req_doctor_id data, joined_at = now,
                    is_emergency = is_emergency_flag\<rparr>
             in (Inr ''Successfully joined the queue'',
                 s\<lparr>queue_tbl := queue_tbl s @ [new_queue_entry]\<rparr>))"

section \<open>get\_queue\_position\<close>

text \<open>
  \<open>list.index\<close> compares mapped rows by identity, and the session holds one object
  per primary key: the search is for the row with the same key. It raises ValueError
  when there is none.
\<close>

fun index_of :: "queue list \<Rightarrow> queue \<Rightarrow> nat option" where
  "index_of [] e = None"
| "index_of (x # xs) e =
     (if q_id x = q_id e then Some 0 else map_option Suc (index_of xs e))"

record position_info =
  position :: nat
  pos_doctor_id :: string
  estimated_wait_minutes :: int

definition get_queue_position :: "store \<Rightarrow> string \<Rightarrow> error + position_info" where
  "get_queue_position s uid =
     (case find (\<lambda>e. user_id e = uid) (queue_tbl s) of
        None \<Rightarrow> Inl Not_in_queue
      | Some queue_entry \<Rightarrow>
          let doctor_queue =
                sort_key joined_at
                  (filter (\<lambda>e. doctor_id e = doctor_id queue_entry) (queue_tbl s))
          in (case index_of doctor_queue queue_entry of
                None \<Rightarrow> Inl ValueError
              | Some i \<Rightarrow>
                  Inr \<lparr>position = i + 1, pos_doctor_id = doctor_id queue_entry,
                       estimated_wait_minutes = estimate_wait_time s (doctor_id queue_entry)\<rparr>))"

section \<open>get\_doctor\_queue\<close>

record patient =
  queue_id :: int
  pat_user_id :: string
  name :: string
  pat_joined_at :: datetime
  pat_is_emergency :: bool

definition str_of :: "string option \<Rightarrow> string" where
  "str_of v = (case v of None \<Rightarrow> ''None'' | Some t \<Rightarrow> t)"

definition user_get :: "store \<Rightarrow> string \<Rightarrow> user option" where
  "user_get s k = find (\<lambda>u. u_id u = k) (user_tbl s)"

fun patients_of :: "store \<Rightarrow> queue list \<Rightarrow> patient list" where
  "patients_of s [] = []"
| "patients_of s (entry # rest) =
     (case user_get s (user_id entry) of
        Some usr \<Rightarrow>
          \<lparr>queue_id = q_id entry, pat_user_id = u_id usr,
           name = str_of (first_name usr) @ '' '' @ str_of (last_name usr),
           pat_joined_at = joined_at entry, pat_is_emergency = is_emergency entry\<rparr>
            # patients_of s rest
      | None \<Rightarrow> patients_of s rest)"

definition get_doctor_queue :: "store \<Rightarrow> string \<Rightarrow> patient list" where
  "get_doctor_queue s doctor =
     (let queue_entries = filter (\<lambda>e. doctor_id e = doctor) (queue_tbl s);
          sorted_entries = sort_key (\<lambda>x. (\<not> is_emergency x, joined_at x)) queue_entries
      in patients_of s sorted_entries)"

section \<open>complete\_consultation\<close>

text \<open>
  \<open>(now - joined_at).seconds\<close>: a timedelta is normalised to days, seconds in
  \<open>0..86399\<close> and microseconds; the attribute is the seconds component alone.
\<close>

definition timedelta_seconds :: "int \<Rightarrow> int" where
  "timedelta_seconds delta = (delta div 1000000) mod 86400"

definition complete_consultation :: "datetime \<Rightarrow> int \<Rightarrow> store \<Rightarrow> (error + string) \<times> store" where
  "complete_consultation now qid s =
     (case find (\<lambda>e. q_id e = qid) (queue_tbl s) of
        None \<Rightarrow> (Inl Queue_entry_not_found, s)
      | Some queue_entry \<Rightarrow>
          let duration = timedelta_seconds (now - joined_at queue_entry) div 60;
              new_consultation =
                \<lparr>c_id = next_id (map c_id (consultation_tbl s)),
                 patient_id = Some (user_id queue_entry),
                 c_doctor_id = Some (doctor_id queue_entry),
                 start_time = Some (joined_at queue_entry),
                 end_time = Some now,
                 duration_minutes = Some (if duration > 0 then duration else 1)\<rparr>
          in (Inr ''Consultation completed successfully'',
              s\<lparr>consultation_tbl := consultation_tbl s @ [new_consultation],
                queue_tbl := filter (\<lambda>e. q_id e \<noteq> q_id queue_entry) (queue_tbl s)\<rparr>))"

section \<open>The specification's formulas\<close>

text \<open>
  The elapsed time of a consultation as the specification words it: the whole seconds
  between the two instants, floor-divided by 60, at least 1.
\<close>

definition spec_duration_minutes :: "datetime \<Rightarrow> datetime \<Rightarrow> int" where
  "spec_duration_minutes now joined = max 1 (((now - joined) div 1000000) div 60)"

text \<open>
  The display order as the specification words it: emergency entries before the others,
  and within each group by arrival.
\<close>

definition emergency_first :: "patient \<Rightarrow> patient \<Rightarrow> bool" where
  "emergency_first a b \<longleftrightarrow>
     (pat_is_emergency a \<and> \<not> pat_is_emergency b) \<or>
     (pat_is_emergency a = pat_is_emergency b \<and> pat_joined_at a \<le> pat_joined_at b)"

text \<open>
  The estimate as the specification words it: the arithmetic mean of the non-null
  durations times the number of queue entries, truncated, in exact arithmetic; 15
  without durations.
\<close>

definition spec_wait_time :: "store \<Rightarrow> string \<Rightarrow> int" where
  "spec_wait_time s doctor =
     (let durations = List.map_filter (\<lambda>d. d)
            (map duration_minutes (filter (\<lambda>c. c_doctor_id c = Some doctor) (consultation_tbl s)));
          queue_length = int (length (filter (\<lambda>e. doctor_id e = doctor) (queue_tbl s)))
      in if durations = [] then 15
         else int_of_float
           (of_int (sum_list durations) / of_int (int (length durations)) * of_int queue_length))"

text \<open>The non-null durations of a doctor's consultations, and the length of the doctor's queue.\<close>

abbreviation doctor_durations :: "store \<Rightarrow> string \<Rightarrow> int list" where
  "doctor_durations s doctor \<equiv>
     List.map_filter (\<lambda>d. d)
       (map duration_minutes (filter (\<lambda>c. c_doctor_id c = Some doctor) (consultation_tbl s)))"

abbreviation doctor_queue_length :: "store \<Rightarrow> string \<Rightarrow> int" where
  "doctor_queue_length s doctor \<equiv>
     int (length (filter (\<lambda>e. doctor_id e = doctor) (queue_tbl s)))"

section \<open>Example stores\<close>

definition null_history_store :: store where
  "null_history_store =
     \<lparr>user_tbl = [],
      queue_tbl =
        [\<lparr>q_id = 1, user_id = ''p1'', doctor_id = ''d1'', joined_at = 0, is_emergency = False\<rparr>,
         \<lparr>q_id = 2, user_id = ''p2'', doctor_id = ''d1'', joined_at = 5, is_emergency = True\<rparr>],
      consultation_tbl =
        [\<lparr>c_id = 1, patient_id = Some ''p0'', c_doctor_id = Some ''d1'', start_time = Some 0,
          end_time = None, duration_minutes = None\<rparr>]\<rparr>"

definition emergency_first_joined :: "queue list" where
  "emergency_first_joined =
     [\<lparr>q_id = 1, user_id = ''p1'', doctor_id = ''d1'', joined_at = 10, is_emergency = True\<rparr>,
      \<lparr>q_id = 2, user_id = ''p2'', doctor_id = ''d1'', joined_at = 20, is_emergency = False\<rparr>]"

definition day_old_store :: store where
  "day_old_store =
     \<lparr>user_tbl = [],
      queue_tbl =
        [\<lparr>q_id = 1, user_id = ''p1'', doctor_id = ''d1'', joined_at = 0, is_emergency = False\<rparr>],
      consultation_tbl = []\<rparr>"

definition clinic_users :: "user list" where
  "clinic_users =
     [\<lparr>u_id = ''d1'', email = ''doc@clinic'', password = ''secret'', role = ''doctor'',
       first_name = Some ''Ada'', last_name = Some ''Lee'', specialty = Some ''ENT''\<rparr>,
      \<lparr>u_id = ''p1'', email = ''p1@mail'', password = ''pw1'', role = ''patient'',
       first_name = Some ''Bo'', last_name = Some ''Ray'', specialty = Some []\<rparr>,
      \<lparr>u_id = ''p2'', email = ''p2@mail'', password = ''pw2'', role = ''patient'',
       first_name = Some ''Cy'', last_name = Some ''Fox'', specialty = Some []\<rparr>,
      \<lparr>u_id = ''p3'', email = ''p3@mail'', password = ''pw3'', role = ''patient'',
       first_name = Some ''Di'', last_name = None, specialty = None\<rparr>]"

definition entry1 :: queue where
  "entry1 = \<lparr>q_id = 1, user_id = ''p1'', doctor_id = ''d1'', joined_at = 100, is_emergency = False\<rparr>"

definition entry2 :: queue where
  "entry2 = \<lparr>q_id = 2, user_id = ''p2'', doctor_id = ''d1'', joined_at = 200, is_emergency = True\<rparr>"

definition entry3 :: queue where
  "entry3 = \<lparr>q_id = 3, user_id = ''p3'', doctor_id = ''d1'', joined_at = 300, is_emergency = False\<rparr>"

definition clinic_store :: store where
  "clinic_store =
     \<lparr>user_tbl = clinic_users, queue_tbl = [entry1, entry2, entry3], consultation_tbl = []\<rparr>"

definition ghost_entry :: queue where
  "ghost_entry =
     \<lparr>q_id = 4, user_id = ''ghost'', doctor_id = ''d1'', joined_at = 50, is_emergency = False\<rparr>"

definition orphan_store :: store where
  "orphan_store =
     \<lparr>user_tbl = clinic_users, queue_tbl = [ghost_entry], consultation_tbl = []\<rparr>"

definition mixed_store :: store where
  "mixed_store =
     \<lparr>user_tbl = clinic_users, queue_tbl = [entry1, ghost_entry], consultation_tbl = []\<rparr>"

definition join_p1_again :: join_request where
  "join_p1_again = \<lparr>req_user_id = ''p1'', req_doctor_id = ''d2'', req_is_emergency = Some True\<rparr>"

definition join_p4 :: join_request where
  "join_p4 = \<lparr>req_user_id = ''p4'', req_doctor_id = ''d1'', req_is_emergency = None\<rparr>"

definition emergency_late_store :: store where
  "emergency_late_store =
     \<lparr>user_tbl = clinic_users,
      queue_tbl =
        [entry1,
         \<lparr>q_id = 2, user_id = ''p2'', doctor_id = ''d2'', joined_at = 150, is_emergency = False\<rparr>,
         \<lparr>q_id = 3, user_id = ''p3'', doctor_id = ''d1'', joined_at = 300, is_emergency = True\<rparr>],
      consultation_tbl = []\<rparr>"

text \<open>
  Eleven consultations of doctor \<open>d1\<close>, seven of 1 minute and four of 2 minutes (15
  minutes in all), and eleven patients waiting.
\<close>

definition visit :: "int \<Rightarrow> int \<Rightarrow> consultation" where
  "visit k minutes =
     \<lparr>c_id = k, patient_id = Some ''p0'', c_doctor_id = Some ''d1'', start_time = Some 0,
      end_time = Some (60000000 * minutes), duration_minutes = Some minutes\<rparr>"

definition waiting :: "int \<Rightarrow> queue" where
  "waiting k =
     \<lparr>q_id = k, user_id = ''p'' @ replicate (nat k) CHR ''x'', doctor_id = ''d1'',
      joined_at = k, is_emergency = False\<rparr>"

definition rounding_store :: store where
  "rounding_store =
     \<lparr>user_tbl = [],
      queue_tbl = map waiting [1, 2, 3, 4, 5, 6, 7, 8, 9, 10, 11],
      consultation_tbl =
        [visit 1 1, visit 2 1, visit 3 1, visit 4 1, visit 5 1, visit 6 1, visit 7 1,
         visit 8 2, visit 9 2, visit 10 2, visit 11 2]\<rparr>"

definition history_store :: store where
  "history_store =
     \<lparr>user_tbl = [],
      queue_tbl = [waiting 1, waiting 2],
      consultation_tbl = [visit 1 10, visit 2 20, visit 3 30]\<rparr>"

section \<open>The estimator's default\<close>

lemma map_filter_id_Nil:
  "List.map_filter (\<lambda>d. d) xs = [] \<longleftrightarrow> (\<forall>x\<in>set xs. x = None)"
  by (induction xs) (auto simp: List.map_filter_simps split: option.splits)

text \<open>
  C10: when a doctor has consultation records and the duration of every one of them is
  null, the estimator returns the default 15, as it does with no history.
\<close>

theorem estimate_wait_time_null_durations:
  assumes "\<exists>c\<in>set (consultation_tbl s). c_doctor_id c = Some doctor"
    and "\<forall>c\<in>set (consultation_tbl s). c_doctor_id c = Some doctor \<longrightarrow> duration_minutes c = None"
  shows "estimate_wait_time s doctor = 15"
proof -
  let ?h = "map duration_minutes (filter (\<lambda>c. c_doctor_id c = Some doctor) (consultation_tbl s))"
  from assms(2) have "List.map_filter (\<lambda>d. d) ?h = []"
    unfolding map_filter_id_Nil by auto
  then show ?thesis
    by (simp add: estimate_wait_time_def Let_def)
qed

theorem estimate_wait_time_null_durations_witness:
  "map c_doctor_id (consultation_tbl null_history_store) = [Some ''d1''] \<and>
   map duration_minutes (consultation_tbl null_history_store) = [None] \<and>
   length (filter (\<lambda>e. doctor_id e = ''d1'') (queue_tbl null_history_store)) = 2 \<and>
   estimate_wait_time null_history_store ''d1'' = 15"
proof -
  have a: "\<exists>c\<in>set (consultation_tbl null_history_store). c_doctor_id c = Some ''d1''"
    by (simp add: null_history_store_def)
  have b: "\<forall>c\<in>set (consultation_tbl null_history_store).
      c_doctor_id c = Some ''d1'' \<longrightarrow> duration_minutes c = None"
    by (simp add: null_history_store_def)
  have "estimate_wait_time null_history_store ''d1'' = 15"
    by (rule estimate_wait_time_null_durations [OF a b])
  then show ?thesis
    by (simp add: null_history_store_def)
qed

section \<open>The ordering helper\<close>

text \<open>
  C8: sort\_queue is to put emergency entries first. On an emergency entry that joined
  at 10 and an ordinary entry that joined at 20 it returns the ordinary entry first: the
  key \<open>(is_emergency, joined_at)\<close> sorts \<open>False\<close> before \<open>True\<close>.
\<close>

theorem sort_queue_emergency_last:
  "map q_id (sort_queue emergency_first_joined) = [2, 1] \<and>
   map is_emergency (sort_queue emergency_first_joined) = [False, True]"
  by (simp add: sort_queue_def emergency_first_joined_def)

section \<open>The recorded duration\<close>

text \<open>
  C3: the recorded duration is to be the elapsed seconds floor-divided by 60, at least 1,
  also after a day or more. For an entry completed exactly one day after it joined, the
  handler records 1 minute, where the elapsed time is 1440 minutes: the \<open>seconds\<close>
  attribute of a timedelta leaves the days out.
\<close>

theorem complete_consultation_after_one_day:
  "map duration_minutes
     (consultation_tbl (snd (complete_consultation 86400000000 1 day_old_store))) = [Some 1] \<and>
   spec_duration_minutes 86400000000 0 = 1440"
  by (simp add: complete_consultation_def day_old_store_def timedelta_seconds_def next_id_def
      spec_duration_minutes_def)

section \<open>The doctor listing\<close>

text \<open>
  C7 (as stated): the record of a doctor includes the password. The one doctor of the
  example store has the password \<open>secret\<close>; the record returned for it has six fields,
  none of them the password.
\<close>

theorem get_doctors_password_counterexample:
  "map (map fst) (get_doctors clinic_store) =
     [[''id'', ''email'', ''role'', ''first_name'', ''last_name'', ''specialty'']] \<and>
   map_of (hd (get_doctors clinic_store)) ''password'' = None"
  by (simp add: get_doctors_def clinic_store_def clinic_users_def to_dict_def)

text \<open>
  C7 (amended): every record that the doctor listing returns is the serialization of a
  user with role doctor, with the fields id, email, role, first\_name, last\_name and
  specialty, and without the password.
\<close>

theorem get_doctors_fields:
  assumes "r \<in> set (get_doctors s)"
  shows "map fst r = [''id'', ''email'', ''role'', ''first_name'', ''last_name'', ''specialty''] \<and>
         map_of r ''password'' = None \<and>
         (\<exists>u\<in>set (user_tbl s). role u = ''doctor'' \<and> r = to_dict u)"
  using assms by (auto simp: get_doctors_def to_dict_def)

theorem get_doctors_fields_witness:
  "get_doctors clinic_store = [to_dict (hd clinic_users)] \<and>
   map fst (to_dict (hd clinic_users)) =
     [''id'', ''email'', ''role'', ''first_name'', ''last_name'', ''specialty''] \<and>
   map_of (to_dict (hd clinic_users)) ''password'' = None"
proof -
  have m: "get_doctors clinic_store = [to_dict (hd clinic_users)]"
    by (simp add: get_doctors_def clinic_store_def clinic_users_def)
  then have "to_dict (hd clinic_users) \<in> set (get_doctors clinic_store)"
    by simp
  from get_doctors_fields [OF this] m show ?thesis
    by blast
qed

section \<open>The doctor-queue listing\<close>

lemma user_get_None: "user_get s k = None \<longleftrightarrow> k \<notin> set (map u_id (user_tbl s))"
  by (auto simp: user_get_def find_None_iff)

lemma user_get_Some: "user_get s k = Some u \<Longrightarrow> u_id u = k"
  by (auto simp: user_get_def find_Some_iff)

lemma patients_of_keys:
  "map (\<lambda>p. (queue_id p, pat_joined_at p, pat_is_emergency p)) (patients_of s es) =
   map (\<lambda>e. (q_id e, joined_at e, is_emergency e))
     (filter (\<lambda>e. user_get s (user_id e) \<noteq> None) es)"
  by (induction es) (auto split: option.splits)

lemma patients_of_sort_keys:
  "map (\<lambda>p. (\<not> pat_is_emergency p, pat_joined_at p)) (patients_of s es) =
   map (\<lambda>e. (\<not> is_emergency e, joined_at e))
     (filter (\<lambda>e. user_get s (user_id e) \<noteq> None) es)"
  by (induction es) (auto split: option.splits)

lemma patients_of_ids:
  "map queue_id (patients_of s es) =
   map q_id (filter (\<lambda>e. user_get s (user_id e) \<noteq> None) es)"
  by (induction es) (auto split: option.splits)

lemma patients_of_users:
  "p \<in> set (patients_of s es) \<Longrightarrow> user_get s (pat_user_id p) \<noteq> None"
proof (induction es)
  case Nil
  then show ?case by simp
next
  case (Cons entry rest)
  show ?case
  proof (cases "user_get s (user_id entry)")
    case None
    with Cons show ?thesis by simp
  next
    case (Some usr)
    then have "u_id usr = user_id entry"
      by (rule user_get_Some)
    with Some Cons show ?thesis by auto
  qed
qed

lemma get_doctor_queue_sorted:
  "sorted_wrt emergency_first (get_doctor_queue s doctor)"
proof -
  let ?k = "\<lambda>x. (\<not> is_emergency x, joined_at x)"
  let ?es = "sort_key ?k (filter (\<lambda>e. doctor_id e = doctor) (queue_tbl s))"
  have "sorted (map ?k (filter (\<lambda>e. user_get s (user_id e) \<noteq> None) ?es))"
    by (rule sorted_filter) (rule sorted_sort_key)
  then have "sorted (map (\<lambda>p. (\<not> pat_is_emergency p, pat_joined_at p)) (patients_of s ?es))"
    by (simp only: patients_of_sort_keys)
  then have "sorted_wrt
      (\<lambda>a b. (\<not> pat_is_emergency a, pat_joined_at a) \<le> (\<not> pat_is_emergency b, pat_joined_at b))
      (patients_of s ?es)"
    by (simp only: sorted_map)
  then have "sorted_wrt emergency_first (patients_of s ?es)"
    by (rule sorted_wrt_mono_rel [rotated]) (auto simp: emergency_first_def)
  then show ?thesis
    by (simp add: get_doctor_queue_def Let_def)
qed

lemma get_doctor_queue_mset:
  "mset (map (\<lambda>p. (queue_id p, pat_joined_at p, pat_is_emergency p)) (get_doctor_queue s doctor)) =
   mset (map (\<lambda>e. (q_id e, joined_at e, is_emergency e))
     (filter (\<lambda>e. doctor_id e = doctor \<and> user_get s (user_id e) \<noteq> None) (queue_tbl s)))"
proof -
  let ?k = "\<lambda>x. (\<not> is_emergency x, joined_at x)"
  let ?P = "\<lambda>e. user_get s (user_id e) \<noteq> None"
  let ?D = "filter (\<lambda>e. doctor_id e = doctor) (queue_tbl s)"
  have "mset (filter ?P (sort_key ?k ?D)) = mset (filter ?P ?D)"
    by (simp only: mset_filter mset_sort)
  then have "mset (map (\<lambda>e. (q_id e, joined_at e, is_emergency e)) (filter ?P (sort_key ?k ?D))) =
    mset (map (\<lambda>e. (q_id e, joined_at e, is_emergency e)) (filter ?P ?D))"
    by (simp only: mset_map)
  moreover have "filter ?P ?D = filter (\<lambda>e. doctor_id e = doctor \<and> ?P e) (queue_tbl s)"
    by (simp add: conj_commute)
  ultimately show ?thesis
    by (simp only: get_doctor_queue_def Let_def patients_of_keys)
qed

lemma three_entries_order:
  assumes m: "mset (filter (\<lambda>e. doctor_id e = doctor) (queue_tbl s)) = {#e1, e2, e3#}"
    and t: "joined_at e1 < joined_at e2" "joined_at e2 < joined_at e3"
    and f: "\<not> is_emergency e1" "is_emergency e2" "\<not> is_emergency e3"
    and u: "user_get s (user_id e1) \<noteq> None" "user_get s (user_id e2) \<noteq> None"
      "user_get s (user_id e3) \<noteq> None"
  shows "map queue_id (get_doctor_queue s doctor) = [q_id e2, q_id e1, q_id e3]"
proof -
  let ?k = "\<lambda>x. (\<not> is_emergency x, joined_at x)"
  let ?D = "filter (\<lambda>e. doctor_id e = doctor) (queue_tbl s)"
  have m': "mset ?D = mset [e2, e1, e3]"
    using m by (simp add: add_mset_commute)
  have "set ?D = {e1, e2, e3}"
    using arg_cong [OF m, of set_mset] by auto
  then have i: "inj_on ?k (set ?D)"
    using t f by (auto simp: inj_on_def)
  have o: "sorted (map ?k [e2, e1, e3])"
    using t f by auto
  have "sort_key ?k ?D = [e2, e1, e3]"
    using m' i o by (rule sort_key_inj_key_eq)
  then show ?thesis
    using u by (simp add: get_doctor_queue_def Let_def split: option.splits)
qed

text \<open>
  C1 (as stated): the listing returns exactly the entries of the doctor. The store
  \<open>orphan_store\<close> holds one entry for doctor \<open>d1\<close>, whose user\_id is no user's id; the
  listing for \<open>d1\<close> is empty.
\<close>

theorem get_doctor_queue_orphan_counterexample:
  "map doctor_id (queue_tbl orphan_store) = [''d1''] \<and>
   get_doctor_queue orphan_store ''d1'' = []"
  by (simp add: orphan_store_def ghost_entry_def get_doctor_queue_def user_get_def
      clinic_users_def)

text \<open>
  C1 (amended): for every doctor\_id the listing returns exactly the queue entries whose
  doctor\_id matches and whose user\_id is the id of an existing user (each with its
  queue id, joined\_at and is\_emergency), ordered with emergency entries first and
  joined\_at ascending within each group; three entries of the doctor with existing
  users, joined\_at t1 < t2 < t3 and flags false, true, false are listed as
  entry2, entry1, entry3.
\<close>

theorem get_doctor_queue_order:
  "mset (map (\<lambda>p. (queue_id p, pat_joined_at p, pat_is_emergency p)) (get_doctor_queue s doctor)) =
     mset (map (\<lambda>e. (q_id e, joined_at e, is_emergency e))
       (filter (\<lambda>e. doctor_id e = doctor \<and> user_get s (user_id e) \<noteq> None) (queue_tbl s))) \<and>
   sorted_wrt emergency_first (get_doctor_queue s doctor) \<and>
   (mset (filter (\<lambda>e. doctor_id e = doctor) (queue_tbl s)) = {#e1, e2, e3#} \<and>
    joined_at e1 < joined_at e2 \<and> joined_at e2 < joined_at e3 \<and>
    \<not> is_emergency e1 \<and> is_emergency e2 \<and> \<not> is_emergency e3 \<and>
    user_get s (user_id e1) \<noteq> None \<and> user_get s (user_id e2) \<noteq> None \<and>
    user_get s (user_id e3) \<noteq> None \<longrightarrow>
    map queue_id (get_doctor_queue s doctor) = [q_id e2, q_id e1, q_id e3])"
  using get_doctor_queue_mset [of s doctor] get_doctor_queue_sorted [of s doctor]
    three_entries_order [of doctor s e1 e2 e3]
  by blast

theorem get_doctor_queue_order_witness:
  "map joined_at (queue_tbl clinic_store) = [100, 200, 300] \<and>
   map is_emergency (queue_tbl clinic_store) = [False, True, False] \<and>
   map queue_id (get_doctor_queue clinic_store ''d1'') = [2, 1, 3]"
proof -
  have h: "mset (filter (\<lambda>e. doctor_id e = ''d1'') (queue_tbl clinic_store)) =
      {#entry1, entry2, entry3#} \<and>
    joined_at entry1 < joined_at entry2 \<and> joined_at entry2 < joined_at entry3 \<and>
    \<not> is_emergency entry1 \<and> is_emergency entry2 \<and> \<not> is_emergency entry3 \<and>
    user_get clinic_store (user_id entry1) \<noteq> None \<and>
    user_get clinic_store (user_id entry2) \<noteq> None \<and>
    user_get clinic_store (user_id entry3) \<noteq> None"
    by (simp add: clinic_store_def entry1_def entry2_def entry3_def user_get_def
        clinic_users_def)
  have "map queue_id (get_doctor_queue clinic_store ''d1'') = [q_id entry2, q_id entry1, q_id entry3]"
    using get_doctor_queue_order [of clinic_store "''d1''" entry1 entry2 entry3] h by blast
  then show ?thesis
    by (simp add: clinic_store_def entry1_def entry2_def entry3_def)
qed

text \<open>
  C9: a queue entry whose user\_id is no user's id is left out of the listing, without
  an error: the listing and the doctor's entries without a user together are as many as
  the doctor's entries, every listed item belongs to an existing user, and the key of an
  entry without a user is the queue\_id of no listed item.
\<close>

theorem get_doctor_queue_omits_unknown_users:
  "length (get_doctor_queue s doctor) +
     length (filter (\<lambda>e. doctor_id e = doctor \<and> user_get s (user_id e) = None) (queue_tbl s)) =
     length (filter (\<lambda>e. doctor_id e = doctor) (queue_tbl s)) \<and>
   (\<forall>p\<in>set (get_doctor_queue s doctor). user_get s (pat_user_id p) \<noteq> None) \<and>
   (wf_store s \<and> e \<in> set (queue_tbl s) \<and> user_get s (user_id e) = None \<longrightarrow>
      q_id e \<notin> set (map queue_id (get_doctor_queue s doctor)))"
proof (intro conjI impI)
  let ?k = "\<lambda>x. (\<not> is_emergency x, joined_at x)"
  let ?P = "\<lambda>e. user_get s (user_id e) \<noteq> None"
  let ?D = "filter (\<lambda>e. doctor_id e = doctor) (queue_tbl s)"
  have ids: "map queue_id (get_doctor_queue s doctor) = map q_id (filter ?P (sort_key ?k ?D))"
    by (simp add: get_doctor_queue_def Let_def patients_of_ids)
  have "length (get_doctor_queue s doctor) = length (filter ?P (sort_key ?k ?D))"
    using arg_cong [OF ids, of length] by simp
  also have "\<dots> = length (sort_key ?k (filter ?P ?D))"
    by (simp only: filter_sort)
  also have "\<dots> = length (filter ?P ?D)"
    by (rule length_sort)
  finally have "length (get_doctor_queue s doctor) = length (filter ?P ?D)" .
  moreover have "length (filter ?P ?D) + length (filter (\<lambda>e. \<not> ?P e) ?D) = length ?D"
    by (rule sum_length_filter_compl)
  moreover have "filter (\<lambda>e. \<not> ?P e) ?D =
      filter (\<lambda>e. doctor_id e = doctor \<and> user_get s (user_id e) = None) (queue_tbl s)"
    by (simp add: conj_commute)
  ultimately show "length (get_doctor_queue s doctor) +
     length (filter (\<lambda>e. doctor_id e = doctor \<and> user_get s (user_id e) = None) (queue_tbl s)) =
     length (filter (\<lambda>e. doctor_id e = doctor) (queue_tbl s))"
    by simp
  show "\<forall>p\<in>set (get_doctor_queue s doctor). user_get s (pat_user_id p) \<noteq> None"
    by (auto simp: get_doctor_queue_def Let_def dest: patients_of_users)
  assume a: "wf_store s \<and> e \<in> set (queue_tbl s) \<and> user_get s (user_id e) = None"
  show "q_id e \<notin> set (map queue_id (get_doctor_queue s doctor))"
  proof
    assume "q_id e \<in> set (map queue_id (get_doctor_queue s doctor))"
    then obtain e' where e': "e' \<in> set (queue_tbl s)" "?P e'" "q_id e' = q_id e"
      unfolding ids by auto
    from a have "inj_on q_id (set (queue_tbl s))"
      by (simp add: wf_store_def distinct_map)
    with e' a have "e' = e"
      by (auto dest: inj_onD)
    with e' a show False
      by simp
  qed
qed

theorem get_doctor_queue_omits_unknown_users_witness:
  "wf_store mixed_store \<and> ghost_entry \<in> set (queue_tbl mixed_store) \<and>
   user_get mixed_store (user_id ghost_entry) = None \<and>
   q_id ghost_entry \<notin> set (map queue_id (get_doctor_queue mixed_store ''d1'')) \<and>
   length (get_doctor_queue mixed_store ''d1'') + 1 = length (queue_tbl mixed_store)"
proof -
  have h: "wf_store mixed_store \<and> ghost_entry \<in> set (queue_tbl mixed_store) \<and>
      user_get mixed_store (user_id ghost_entry) = None"
    by (simp add: wf_store_def mixed_store_def ghost_entry_def entry1_def user_get_def
        clinic_users_def)
  have c: "length (filter (\<lambda>e. doctor_id e = ''d1'' \<and> user_get mixed_store (user_id e) = None)
        (queue_tbl mixed_store)) = 1"
    "length (filter (\<lambda>e. doctor_id e = ''d1'') (queue_tbl mixed_store)) = 2"
    "length (queue_tbl mixed_store) = 2"
    by (simp_all add: mixed_store_def ghost_entry_def entry1_def user_get_def clinic_users_def)
  from get_doctor_queue_omits_unknown_users [of mixed_store "''d1''" ghost_entry] h c
  show ?thesis
    by simp
qed

section \<open>Keys\<close>

lemma fold_max_ge: "(a::int) \<le> fold max ks a"
proof (induction ks arbitrary: a)
  case Nil
  show ?case by simp
next
  case (Cons k ks)
  have "a \<le> max k a" by simp
  also have "\<dots> \<le> fold max ks (max k a)" by (rule Cons.IH)
  finally show ?case by simp
qed

lemma fold_max_upper: "(x::int) \<in> set ks \<Longrightarrow> x \<le> fold max ks a"
proof (induction ks arbitrary: a)
  case Nil
  then show ?case by simp
next
  case (Cons k ks)
  show ?case
  proof (cases "x = k")
    case True
    have "max k a \<le> fold max ks (max k a)"
      by (rule fold_max_ge)
    with True show ?thesis by simp
  next
    case False
    with Cons show ?thesis by simp
  qed
qed

lemma next_id_fresh: "next_id ks \<notin> set ks"
proof
  assume a: "next_id ks \<in> set ks"
  show False
  proof (cases ks)
    case Nil
    with a show False by simp
  next
    case (Cons k rest)
    have "next_id ks \<le> fold max rest k"
    proof (cases "next_id ks = k")
      case True
      then show ?thesis using fold_max_ge [of k rest] by simp
    next
      case False
      with a Cons have "next_id ks \<in> set rest" by simp
      then show ?thesis by (rule fold_max_upper)
    qed
    with Cons show False by (simp add: next_id_def)
  qed
qed

lemma find_by_key:
  "distinct (map f xs) \<Longrightarrow> e \<in> set xs \<Longrightarrow> find (\<lambda>x. f x = f e) xs = Some e"
  by (induction xs) auto

lemma filter_other_keys:
  "distinct (map f xs) \<Longrightarrow> e \<in> set xs \<Longrightarrow> filter (\<lambda>x. f x \<noteq> f e) xs = remove1 e xs"
proof (induction xs)
  case Nil
  then show ?case by simp
next
  case (Cons x xs)
  show ?case
  proof (cases "x = e")
    case True
    with Cons.prems have "f e \<notin> f ` set xs" by simp
    then have "\<forall>y\<in>set xs. f y \<noteq> f e" by (metis image_eqI)
    then have "filter (\<lambda>x. f x \<noteq> f e) xs = xs" by simp
    with True show ?thesis by simp
  next
    case False
    with Cons show ?thesis by auto
  qed
qed

section \<open>Joining a queue\<close>

lemma join_queue_conflict:
  assumes "req_user_id data \<in> set (map user_id (queue_tbl s))"
  shows "join_queue now data s = (Inl Already_in_queue, s)"
proof -
  from assms have "find (\<lambda>e. user_id e = req_user_id data) (queue_tbl s) \<noteq> None"
    by (auto simp: find_None_iff)
  then show ?thesis
    by (auto simp: join_queue_def Let_def split: option.splits)
qed

lemma join_queue_success:
  assumes "req_user_id data \<notin> set (map user_id (queue_tbl s))"
  shows "join_queue now data s =
     (Inr ''Successfully joined the queue'',
      s\<lparr>queue_tbl := queue_tbl s @
         [\<lparr>q_id = next_id (map q_id (queue_tbl s)), user_id = req_user_id data,
           doctor_id = req_doctor_id data, joined_at = now,
           is_emergency = (case req_is_emergency data of None \<Rightarrow> False | Some b \<Rightarrow> b)\<rparr>]\<rparr>)"
proof -
  from assms have "find (\<lambda>e. user_id e = req_user_id data) (queue_tbl s) = None"
    by (force simp: find_None_iff)
  then show ?thesis
    by (simp add: join_queue_def Let_def)
qed

lemma join_queue_user_queued:
  "req_user_id data \<in> set (map user_id (queue_tbl (snd (join_queue now data s))))"
proof (cases "req_user_id data \<in> set (map user_id (queue_tbl s))")
  case True
  then show ?thesis by (simp add: join_queue_conflict)
next
  case False
  then show ?thesis by (simp add: join_queue_success)
qed

lemma join_queue_wf: "wf_store s \<Longrightarrow> wf_store (snd (join_queue now data s))"
proof (cases "req_user_id data \<in> set (map user_id (queue_tbl s))")
  case True
  then show "wf_store s \<Longrightarrow> ?thesis" by (simp add: join_queue_conflict)
next
  case False
  then show "wf_store s \<Longrightarrow> ?thesis"
    using next_id_fresh [of "map q_id (queue_tbl s)"]
    by (simp add: join_queue_success wf_store_def)
qed

text \<open>
  C5: a join request of a user who has a queue entry, for whatever doctor, is answered
  with the conflict error (409) and changes nothing in the store; a request of a user
  without an entry appends one new entry for the requested doctor, with the requested
  emergency flag (false when the request has none), the current time and a fresh key;
  a second join after any join is a conflict.
\<close>

theorem join_queue_one_entry_per_user:
  "(req_user_id data \<in> set (map user_id (queue_tbl s)) \<longrightarrow>
      join_queue now data s = (Inl Already_in_queue, s) \<and> status_code Already_in_queue = 409) \<and>
   (req_user_id data \<notin> set (map user_id (queue_tbl s)) \<longrightarrow>
      (\<exists>entry. join_queue now data s =
           (Inr ''Successfully joined the queue'', s\<lparr>queue_tbl := queue_tbl s @ [entry]\<rparr>) \<and>
         user_id entry = req_user_id data \<and> doctor_id entry = req_doctor_id data \<and>
         is_emergency entry = (case req_is_emergency data of None \<Rightarrow> False | Some b \<Rightarrow> b) \<and>
         joined_at entry = now \<and> q_id entry \<notin> set (map q_id (queue_tbl s)))) \<and>
   (req_user_id data' = req_user_id data \<longrightarrow>
      join_queue now' data' (snd (join_queue now data s)) =
        (Inl Already_in_queue, snd (join_queue now data s)))"
proof (intro conjI impI)
  assume "req_user_id data \<in> set (map user_id (queue_tbl s))"
  then show "join_queue now data s = (Inl Already_in_queue, s)"
    by (rule join_queue_conflict)
next
  show "status_code Already_in_queue = 409" by simp
next
  assume a: "req_user_id data \<notin> set (map user_id (queue_tbl s))"
  let ?entry = "\<lparr>q_id = next_id (map q_id (queue_tbl s)), user_id = req_user_id data,
     doctor_id = req_doctor_id data, joined_at = now,
     is_emergency = (case req_is_emergency data of None \<Rightarrow> False | Some b \<Rightarrow> b)\<rparr>"
  have "join_queue now data s =
      (Inr ''Successfully joined the queue'', s\<lparr>queue_tbl := queue_tbl s @ [?entry]\<rparr>)"
    using a by (rule join_queue_success)
  moreover have "q_id ?entry \<notin> set (map q_id (queue_tbl s))"
    using next_id_fresh [of "map q_id (queue_tbl s)"] by simp
  ultimately show "\<exists>entry. join_queue now data s =
           (Inr ''Successfully joined the queue'', s\<lparr>queue_tbl := queue_tbl s @ [entry]\<rparr>) \<and>
         user_id entry = req_user_id data \<and> doctor_id entry = req_doctor_id data \<and>
         is_emergency entry = (case req_is_emergency data of None \<Rightarrow> False | Some b \<Rightarrow> b) \<and>
         joined_at entry = now \<and> q_id entry \<notin> set (map q_id (queue_tbl s))"
    by (intro exI [of _ ?entry]) simp
next
  assume "req_user_id data' = req_user_id data"
  then have "req_user_id data' \<in> set (map user_id (queue_tbl (snd (join_queue now data s))))"
    using join_queue_user_queued [of data now s] by simp
  then show "join_queue now' data' (snd (join_queue now data s)) =
        (Inl Already_in_queue, snd (join_queue now data s))"
    by (rule join_queue_conflict)
qed

theorem join_queue_one_entry_per_user_witness:
  "join_queue 400 join_p1_again clinic_store = (Inl Already_in_queue, clinic_store) \<and>
   map user_id (queue_tbl (snd (join_queue 400 join_p4 clinic_store))) =
     [''p1'', ''p2'', ''p3'', ''p4''] \<and>
   map q_id (queue_tbl (snd (join_queue 400 join_p4 clinic_store))) = [1, 2, 3, 4] \<and>
   map is_emergency (queue_tbl (snd (join_queue 400 join_p4 clinic_store))) =
     [False, True, False, False] \<and>
   fst (join_queue 500 join_p4 (snd (join_queue 400 join_p4 clinic_store))) = Inl Already_in_queue"
proof -
  have u: "map user_id (queue_tbl clinic_store) = [''p1'', ''p2'', ''p3'']"
    by (simp add: clinic_store_def entry1_def entry2_def entry3_def)
  have a: "req_user_id join_p1_again \<in> set (map user_id (queue_tbl clinic_store))"
    unfolding u by (simp add: join_p1_again_def)
  have b: "req_user_id join_p4 \<notin> set (map user_id (queue_tbl clinic_store))"
    unfolding u by (simp add: join_p4_def)
  note t1 = join_queue_one_entry_per_user [of join_p1_again clinic_store 400 join_p1_again 400]
  note t2 = join_queue_one_entry_per_user [of join_p4 clinic_store 400 join_p4 500]
  from t1 a have c1: "join_queue 400 join_p1_again clinic_store = (Inl Already_in_queue, clinic_store)"
    by blast
  from t2 b obtain entry where e:
    "join_queue 400 join_p4 clinic_store =
       (Inr ''Successfully joined the queue'',
        clinic_store\<lparr>queue_tbl := queue_tbl clinic_store @ [entry]\<rparr>)"
    "user_id entry = req_user_id join_p4"
    "is_emergency entry = (case req_is_emergency join_p4 of None \<Rightarrow> False | Some b \<Rightarrow> b)"
    by blast
  from t2 have c3: "join_queue 500 join_p4 (snd (join_queue 400 join_p4 clinic_store)) =
        (Inl Already_in_queue, snd (join_queue 400 join_p4 clinic_store))"
    by blast
  have k: "map q_id (queue_tbl (snd (join_queue 400 join_p4 clinic_store))) = [1, 2, 3, 4]"
    by (simp add: join_queue_def join_p4_def clinic_store_def entry1_def entry2_def entry3_def
        next_id_def)
  from c1 e c3 k u show ?thesis
    by (simp add: join_p4_def clinic_store_def entry1_def entry2_def entry3_def)
qed

section \<open>Completing a consultation\<close>

lemma timedelta_seconds_range: "0 \<le> timedelta_seconds d \<and> timedelta_seconds d < 86400"
  by (simp add: timedelta_seconds_def)

lemma complete_consultation_not_found:
  assumes "qid \<notin> set (map q_id (queue_tbl s))"
  shows "complete_consultation now qid s = (Inl Queue_entry_not_found, s)"
proof -
  from assms have "find (\<lambda>e. q_id e = qid) (queue_tbl s) = None"
    by (force simp: find_None_iff)
  then show ?thesis
    by (simp add: complete_consultation_def)
qed

lemma complete_consultation_found:
  assumes "wf_store s" and "e \<in> set (queue_tbl s)"
  shows "complete_consultation now (q_id e) s =
     (Inr ''Consultation completed successfully'',
      s\<lparr>consultation_tbl := consultation_tbl s @
           [\<lparr>c_id = next_id (map c_id (consultation_tbl s)),
             patient_id = Some (user_id e), c_doctor_id = Some (doctor_id e),
             start_time = Some (joined_at e), end_time = Some now,
             duration_minutes = Some (max 1 (timedelta_seconds (now - joined_at e) div 60))\<rparr>],
        queue_tbl := remove1 e (queue_tbl s)\<rparr>)"
proof -
  from assms have d: "distinct (map q_id (queue_tbl s))"
    by (simp add: wf_store_def)
  from d assms(2) have "find (\<lambda>x. q_id x = q_id e) (queue_tbl s) = Some e"
    by (rule find_by_key)
  moreover from d assms(2) have "filter (\<lambda>x. q_id x \<noteq> q_id e) (queue_tbl s) = remove1 e (queue_tbl s)"
    by (rule filter_other_keys)
  moreover have "(if timedelta_seconds (now - joined_at e) div 60 > 0
      then timedelta_seconds (now - joined_at e) div 60 else 1) =
      max 1 (timedelta_seconds (now - joined_at e) div 60)"
    by (simp add: max_def)
  ultimately show ?thesis
    by (simp add: complete_consultation_def Let_def)
qed

lemma complete_consultation_key_gone:
  "qid \<notin> set (map q_id (queue_tbl (snd (complete_consultation now qid s))))"
proof (cases "find (\<lambda>e. q_id e = qid) (queue_tbl s)")
  case None
  then have "qid \<notin> set (map q_id (queue_tbl s))"
    by (auto simp: find_None_iff)
  with None show ?thesis
    by (simp add: complete_consultation_def)
next
  case (Some e)
  then have "q_id e = qid"
    by (auto simp: find_Some_iff)
  with Some show ?thesis
    by (auto simp: complete_consultation_def Let_def)
qed

lemma get_doctor_queue_ids:
  "set (map queue_id (get_doctor_queue s doctor)) \<subseteq> set (map q_id (queue_tbl s))"
  by (auto simp: get_doctor_queue_def Let_def patients_of_ids)

lemma complete_consultation_wf:
  assumes "wf_store s"
  shows "wf_store (snd (complete_consultation now qid s))"
proof (cases "find (\<lambda>e. q_id e = qid) (queue_tbl s)")
  case None
  with assms show ?thesis
    by (simp add: complete_consultation_def)
next
  case (Some e)
  with assms show ?thesis
    using next_id_fresh [of "map c_id (consultation_tbl s)"]
    by (simp add: complete_consultation_def Let_def wf_store_def distinct_map_filter)
qed

text \<open>
  C4: when no queue entry has the key, the handler answers not found (404) and the store
  is the one before; when entry \<open>e\<close> has it, the handler removes \<open>e\<close> and nothing else
  from the queue, appends exactly one consultation, with start\_time the entry's
  joined\_at, end\_time the completion time and a duration of at least 1, and the new
  store is the result of both changes; no doctor-queue listing of the new store has an
  item with that key.
\<close>

theorem complete_consultation_effect:
  "(qid \<notin> set (map q_id (queue_tbl s)) \<longrightarrow>
      complete_consultation now qid s = (Inl Queue_entry_not_found, s) \<and>
      status_code Queue_entry_not_found = 404) \<and>
   (wf_store s \<and> e \<in> set (queue_tbl s) \<and> q_id e = qid \<longrightarrow>
      (\<exists>c d. complete_consultation now qid s =
           (Inr ''Consultation completed successfully'',
            s\<lparr>consultation_tbl := consultation_tbl s @ [c],
              queue_tbl := remove1 e (queue_tbl s)\<rparr>) \<and>
         patient_id c = Some (user_id e) \<and> c_doctor_id c = Some (doctor_id e) \<and>
         start_time c = Some (joined_at e) \<and> end_time c = Some now \<and>
         duration_minutes c = Some d \<and> 1 \<le> d \<and>
         c_id c \<notin> set (map c_id (consultation_tbl s)))) \<and>
   qid \<notin> set (map queue_id (get_doctor_queue (snd (complete_consultation now qid s)) doctor))"
proof (intro conjI impI)
  assume "qid \<notin> set (map q_id (queue_tbl s))"
  then show "complete_consultation now qid s = (Inl Queue_entry_not_found, s)"
    by (rule complete_consultation_not_found)
next
  show "status_code Queue_entry_not_found = 404" by simp
next
  assume a: "wf_store s \<and> e \<in> set (queue_tbl s) \<and> q_id e = qid"
  let ?d = "max 1 (timedelta_seconds (now - joined_at e) div 60)"
  let ?c = "\<lparr>c_id = next_id (map c_id (consultation_tbl s)),
     patient_id = Some (user_id e), c_doctor_id = Some (doctor_id e),
     start_time = Some (joined_at e), end_time = Some now, duration_minutes = Some ?d\<rparr>"
  from a have "complete_consultation now qid s =
      (Inr ''Consultation completed successfully'',
       s\<lparr>consultation_tbl := consultation_tbl s @ [?c], queue_tbl := remove1 e (queue_tbl s)\<rparr>)"
    using complete_consultation_found [of s e now] by simp
  moreover have "c_id ?c \<notin> set (map c_id (consultation_tbl s))"
    using next_id_fresh [of "map c_id (consultation_tbl s)"] by simp
  moreover have "1 \<le> ?d" by simp
  ultimately show "\<exists>c d. complete_consultation now qid s =
           (Inr ''Consultation completed successfully'',
            s\<lparr>consultation_tbl := consultation_tbl s @ [c],
              queue_tbl := remove1 e (queue_tbl s)\<rparr>) \<and>
         patient_id c = Some (user_id e) \<and> c_doctor_id c = Some (doctor_id e) \<and>
         start_time c = Some (joined_at e) \<and> end_time c = Some now \<and>
         duration_minutes c = Some d \<and> 1 \<le> d \<and>
         c_id c \<notin> set (map c_id (consultation_tbl s))"
    by (intro exI [of _ ?c] exI [of _ ?d]) simp
next
  show "qid \<notin> set (map queue_id (get_doctor_queue (snd (complete_consultation now qid s)) doctor))"
    using complete_consultation_key_gone [of qid now s]
      get_doctor_queue_ids [of "snd (complete_consultation now qid s)" doctor]
    by blast
qed

theorem complete_consultation_effect_witness:
  "complete_consultation 30000200 9 clinic_store = (Inl Queue_entry_not_found, clinic_store) \<and>
   wf_store clinic_store \<and>
   queue_tbl (snd (complete_consultation 30000200 2 clinic_store)) = [entry1, entry3] \<and>
   map duration_minutes (consultation_tbl (snd (complete_consultation 30000200 2 clinic_store))) =
     [Some 1] \<and>
   map start_time (consultation_tbl (snd (complete_consultation 30000200 2 clinic_store))) =
     [Some 200] \<and>
   map queue_id (get_doctor_queue (snd (complete_consultation 30000200 2 clinic_store)) ''d1'') =
     [1, 3]"
proof -
  have k: "map q_id (queue_tbl clinic_store) = [1, 2, 3]"
    by (simp add: clinic_store_def entry1_def entry2_def entry3_def)
  have a: "9 \<notin> set (map q_id (queue_tbl clinic_store))"
    unfolding k by simp
  have w: "wf_store clinic_store"
    by (simp add: wf_store_def clinic_store_def clinic_users_def entry1_def entry2_def entry3_def)
  have b: "wf_store clinic_store \<and> entry2 \<in> set (queue_tbl clinic_store) \<and> q_id entry2 = 2"
    using w by (simp add: clinic_store_def entry2_def)
  note t1 = complete_consultation_effect [of 9 clinic_store 30000200 entry2 "''d1''"]
  note t2 = complete_consultation_effect [of 2 clinic_store 30000200 entry2 "''d1''"]
  from t1 a have c1: "complete_consultation 30000200 9 clinic_store =
      (Inl Queue_entry_not_found, clinic_store)"
    by blast
  from t2 b obtain c d where c:
    "complete_consultation 30000200 2 clinic_store =
       (Inr ''Consultation completed successfully'',
        clinic_store\<lparr>consultation_tbl := consultation_tbl clinic_store @ [c],
          queue_tbl := remove1 entry2 (queue_tbl clinic_store)\<rparr>)"
    "start_time c = Some (joined_at entry2)"
    by blast
  have q: "queue_tbl (snd (complete_consultation 30000200 2 clinic_store)) = [entry1, entry3]"
    unfolding c by (simp add: clinic_store_def entry1_def entry2_def entry3_def)
  have s: "map start_time (consultation_tbl (snd (complete_consultation 30000200 2 clinic_store))) =
     [Some 200]"
    unfolding c using c(2) by (simp add: clinic_store_def entry2_def)
  have d: "map duration_minutes
      (consultation_tbl (snd (complete_consultation 30000200 2 clinic_store))) = [Some 1]"
    by (simp add: complete_consultation_def clinic_store_def entry1_def entry2_def entry3_def
        timedelta_seconds_def Let_def)
  have l: "map queue_id (get_doctor_queue (snd (complete_consultation 30000200 2 clinic_store)) ''d1'') =
     [1, 3]"
    by (simp add: complete_consultation_def clinic_store_def entry1_def entry2_def entry3_def
        get_doctor_queue_def user_get_def clinic_users_def Let_def)
  from c1 w q s d l show ?thesis
    by simp
qed

section \<open>The position in the queue\<close>

lemma index_of_Some:
  "distinct (map q_id xs) \<Longrightarrow> e \<in> set xs \<Longrightarrow>
     \<exists>i. index_of xs e = Some i \<and> i < length xs \<and> xs ! i = e"
proof (induction xs)
  case Nil
  then show ?case by simp
next
  case (Cons x xs)
  show ?case
  proof (cases "q_id x = q_id e")
    case True
    have "x = e"
    proof (rule ccontr)
      assume "x \<noteq> e"
      with Cons.prems have "e \<in> set xs" by simp
      then have "q_id e \<in> q_id ` set xs" by (rule imageI)
      with True Cons.prems show False by simp
    qed
    with True show ?thesis by simp
  next
    case False
    with Cons.prems have "e \<in> set xs" and "distinct (map q_id xs)" by auto
    with Cons.IH obtain i where "index_of xs e = Some i" "i < length xs" "xs ! i = e"
      by blast
    with False show ?thesis by simp
  qed
qed

lemma rank_bounds_split:
  fixes f :: "'a \<Rightarrow> int"
  assumes "sorted (map f (A @ e # B))"
  shows "length (filter (\<lambda>x. f x < f e) (A @ e # B)) \<le> length A \<and>
         length A < length (filter (\<lambda>x. f x \<le> f e) (A @ e # B))"
proof -
  from assms have a: "\<forall>x\<in>set A. f x \<le> f e" and b: "\<forall>y\<in>set B. f e \<le> f y"
    by (auto simp: sorted_append)
  from b have "filter (\<lambda>x. f x < f e) B = []"
    by (auto simp: filter_empty_conv)
  moreover from a have "filter (\<lambda>x. f x \<le> f e) A = A"
    by simp
  moreover have "length (filter (\<lambda>x. f x < f e) A) \<le> length A"
    by (rule length_filter_le)
  ultimately show ?thesis
    by simp
qed

lemma sorted_rank_bounds:
  fixes f :: "'a \<Rightarrow> int"
  assumes "sorted (map f L)" and "i < length L"
  shows "length (filter (\<lambda>x. f x < f (L ! i)) L) \<le> i \<and>
         i < length (filter (\<lambda>x. f x \<le> f (L ! i)) L)"
proof -
  let ?A = "take i L" and ?B = "drop (Suc i) L"
  from assms(2) have L: "L = ?A @ L ! i # ?B"
    by (rule id_take_nth_drop)
  from assms(2) have n: "length ?A = i"
    by simp
  from assms(1) L have "sorted (map f (?A @ L ! i # ?B))"
    by simp
  then have "length (filter (\<lambda>x. f x < f (L ! i)) (?A @ L ! i # ?B)) \<le> length ?A \<and>
         length ?A < length (filter (\<lambda>x. f x \<le> f (L ! i)) (?A @ L ! i # ?B))"
    by (rule rank_bounds_split)
  with L n show ?thesis
    by simp
qed

lemma insort_key_map:
  fixes f :: "'a \<Rightarrow> int"
  assumes "\<And>x. f (h x) = f x"
  shows "insort_key f (h x) (map h xs) = map h (insort_key f x xs)"
  by (induction xs) (simp_all add: assms)

lemma sort_key_map:
  fixes f :: "'a \<Rightarrow> int"
  assumes "\<And>x. f (h x) = f x"
  shows "sort_key f (map h xs) = map h (sort_key f xs)"
  by (induction xs) (simp_all add: insort_key_map [of f h, OF assms])

lemma index_of_map:
  assumes "\<And>x. q_id (h x) = q_id x"
  shows "index_of (map h xs) (h e) = index_of xs e"
  by (induction xs) (simp_all add: assms)

lemma find_map_key:
  assumes "\<And>x. P (h x) = P x"
  shows "find P (map h xs) = map_option h (find P xs)"
  by (induction xs) (simp_all add: assms)

lemma filter_map_key:
  assumes "\<And>x. P (h x) = P x"
  shows "filter P (map h xs) = map h (filter P xs)"
  by (induction xs) (simp_all add: assms)

lemma estimate_wait_time_flags:
  "estimate_wait_time (s\<lparr>queue_tbl := map (\<lambda>x. x\<lparr>is_emergency := g x\<rparr>) (queue_tbl s)\<rparr>) doctor =
   estimate_wait_time s doctor"
  by (simp add: estimate_wait_time_def Let_def comp_def)

lemma get_queue_position_flags:
  "get_queue_position (s\<lparr>queue_tbl := map (\<lambda>x. x\<lparr>is_emergency := g x\<rparr>) (queue_tbl s)\<rparr>) uid =
   get_queue_position s uid"
proof -
  let ?h = "\<lambda>x. x\<lparr>is_emergency := g x\<rparr>"
  let ?s = "s\<lparr>queue_tbl := map ?h (queue_tbl s)\<rparr>"
  have f: "find (\<lambda>e. user_id e = uid) (map ?h (queue_tbl s)) =
      map_option ?h (find (\<lambda>e. user_id e = uid) (queue_tbl s))"
    by (rule find_map_key) simp
  show ?thesis
  proof (cases "find (\<lambda>e. user_id e = uid) (queue_tbl s)")
    case None
    with f show ?thesis
      by (simp add: get_queue_position_def)
  next
    case (Some e)
    let ?D = "filter (\<lambda>x. doctor_id x = doctor_id e) (queue_tbl s)"
    have "filter (\<lambda>x. doctor_id x = doctor_id e) (map ?h (queue_tbl s)) = map ?h ?D"
      by (rule filter_map_key) simp
    moreover have "sort_key joined_at (map ?h ?D) = map ?h (sort_key joined_at ?D)"
      by (rule sort_key_map) simp
    moreover have "index_of (map ?h (sort_key joined_at ?D)) (?h e) =
        index_of (sort_key joined_at ?D) e"
      by (rule index_of_map) simp
    ultimately show ?thesis
      using f Some
      by (simp add: get_queue_position_def Let_def estimate_wait_time_flags
          split: option.splits)
  qed
qed

lemma get_queue_position_rank_bounds:
  assumes w: "wf_store s" and f: "find (\<lambda>x. user_id x = uid) (queue_tbl s) = Some e"
  shows "\<exists>p. get_queue_position s uid =
        Inr \<lparr>position = p, pos_doctor_id = doctor_id e,
             estimated_wait_minutes = estimate_wait_time s (doctor_id e)\<rparr> \<and>
      length (filter (\<lambda>x. doctor_id x = doctor_id e \<and> joined_at x < joined_at e) (queue_tbl s)) < p \<and>
      p \<le> length (filter (\<lambda>x. doctor_id x = doctor_id e \<and> joined_at x \<le> joined_at e) (queue_tbl s))"
proof -
  let ?D = "filter (\<lambda>x. doctor_id x = doctor_id e) (queue_tbl s)"
  let ?L = "sort_key joined_at ?D"
  from f have m: "e \<in> set (queue_tbl s)"
    by (auto simp: find_Some_iff)
  then have "e \<in> set ?L"
    by simp
  moreover from w have "distinct (map q_id ?L)"
    by (simp add: wf_store_def distinct_map_filter distinct_map inj_on_def)
  ultimately obtain i where i: "index_of ?L e = Some i" "i < length ?L" "?L ! i = e"
    using index_of_Some [of ?L e] by blast
  have "sorted (map joined_at ?L)"
    by (rule sorted_sort_key)
  from sorted_rank_bounds [OF this i(2)] i(3)
  have "length (filter (\<lambda>x. joined_at x < joined_at e) ?L) \<le> i"
    and "i < length (filter (\<lambda>x. joined_at x \<le> joined_at e) ?L)"
    by simp_all
  moreover have "length (filter (\<lambda>x. joined_at x < joined_at e) ?L) =
      length (filter (\<lambda>x. joined_at x < joined_at e) ?D)"
    by (simp only: filter_sort length_sort)
  moreover have "length (filter (\<lambda>x. joined_at x \<le> joined_at e) ?L) =
      length (filter (\<lambda>x. joined_at x \<le> joined_at e) ?D)"
    by (simp only: filter_sort length_sort)
  moreover have "filter (\<lambda>x. joined_at x < joined_at e) ?D =
      filter (\<lambda>x. doctor_id x = doctor_id e \<and> joined_at x < joined_at e) (queue_tbl s)"
    by (simp add: conj_commute)
  moreover have "filter (\<lambda>x. joined_at x \<le> joined_at e) ?D =
      filter (\<lambda>x. doctor_id x = doctor_id e \<and> joined_at x \<le> joined_at e) (queue_tbl s)"
    by (simp add: conj_commute)
  ultimately have "length (filter (\<lambda>x. doctor_id x = doctor_id e \<and> joined_at x < joined_at e)
        (queue_tbl s)) < i + 1"
    and "i + 1 \<le> length (filter (\<lambda>x. doctor_id x = doctor_id e \<and> joined_at x \<le> joined_at e)
        (queue_tbl s))"
    by simp_all
  moreover from f i(1) have "get_queue_position s uid =
      Inr \<lparr>position = i + 1, pos_doctor_id = doctor_id e,
           estimated_wait_minutes = estimate_wait_time s (doctor_id e)\<rparr>"
    by (simp add: get_queue_position_def Let_def)
  ultimately show ?thesis
    by blast
qed

text \<open>
  C6: a user without a queue entry gets the not-found error (404). Otherwise the answer
  carries the doctor of the user's entry, the estimated wait for that doctor and a
  position p that is the 1-based rank of the entry by joined\_at among the doctor's
  entries: more than the number of those that joined strictly earlier, and at most the
  number of those that joined no later (so exactly one more than the number of earlier
  ones when no other entry joined at the same instant). The emergency flags have no
  part in it: changing them in any way changes nothing in the answer.
\<close>

theorem get_queue_position_rank:
  "(uid \<notin> set (map user_id (queue_tbl s)) \<longrightarrow>
      get_queue_position s uid = Inl Not_in_queue \<and> status_code Not_in_queue = 404) \<and>
   (wf_store s \<and> find (\<lambda>x. user_id x = uid) (queue_tbl s) = Some e \<longrightarrow>
      (\<exists>p. get_queue_position s uid =
          Inr \<lparr>position = p, pos_doctor_id = doctor_id e,
               estimated_wait_minutes = estimate_wait_time s (doctor_id e)\<rparr> \<and>
        length (filter (\<lambda>x. doctor_id x = doctor_id e \<and> joined_at x < joined_at e)
          (queue_tbl s)) < p \<and>
        p \<le> length (filter (\<lambda>x. doctor_id x = doctor_id e \<and> joined_at x \<le> joined_at e)
          (queue_tbl s)))) \<and>
   get_queue_position (s\<lparr>queue_tbl := map (\<lambda>x. x\<lparr>is_emergency := g x\<rparr>) (queue_tbl s)\<rparr>) uid =
     get_queue_position s uid"
proof (intro conjI impI)
  assume "uid \<notin> set (map user_id (queue_tbl s))"
  then have "find (\<lambda>e. user_id e = uid) (queue_tbl s) = None"
    by (force simp: find_None_iff)
  then show "get_queue_position s uid = Inl Not_in_queue"
    by (simp add: get_queue_position_def)
next
  show "status_code Not_in_queue = 404" by simp
next
  assume "wf_store s \<and> find (\<lambda>x. user_id x = uid) (queue_tbl s) = Some e"
  then show "\<exists>p. get_queue_position s uid =
          Inr \<lparr>position = p, pos_doctor_id = doctor_id e,
               estimated_wait_minutes = estimate_wait_time s (doctor_id e)\<rparr> \<and>
        length (filter (\<lambda>x. doctor_id x = doctor_id e \<and> joined_at x < joined_at e)
          (queue_tbl s)) < p \<and>
        p \<le> length (filter (\<lambda>x. doctor_id x = doctor_id e \<and> joined_at x \<le> joined_at e)
          (queue_tbl s))"
    using get_queue_position_rank_bounds [of s uid e] by blast
next
  show "get_queue_position (s\<lparr>queue_tbl := map (\<lambda>x. x\<lparr>is_emergency := g x\<rparr>) (queue_tbl s)\<rparr>) uid =
     get_queue_position s uid"
    by (rule get_queue_position_flags)
qed

theorem get_queue_position_rank_witness:
  "get_queue_position emergency_late_store ''p9'' = Inl Not_in_queue \<and>
   wf_store emergency_late_store \<and>
   find (\<lambda>x. user_id x = ''p1'') (queue_tbl emergency_late_store) = Some entry1 \<and>
   get_queue_position emergency_late_store ''p1'' =
     Inr \<lparr>position = 1, pos_doctor_id = ''d1'', estimated_wait_minutes = 15\<rparr> \<and>
   map queue_id (get_doctor_queue emergency_late_store ''d1'') = [3, 1]"
proof -
  have u: "map user_id (queue_tbl emergency_late_store) = [''p1'', ''p2'', ''p3'']"
    by (simp add: emergency_late_store_def entry1_def)
  have a: "''p9'' \<notin> set (map user_id (queue_tbl emergency_late_store))"
    unfolding u by simp
  have w: "wf_store emergency_late_store"
    by (simp add: wf_store_def emergency_late_store_def clinic_users_def entry1_def)
  have f: "find (\<lambda>x. user_id x = ''p1'') (queue_tbl emergency_late_store) = Some entry1"
    by (simp add: emergency_late_store_def entry1_def)
  have c: "length (filter (\<lambda>x. doctor_id x = doctor_id entry1 \<and> joined_at x \<le> joined_at entry1)
      (queue_tbl emergency_late_store)) = 1"
    by (simp add: emergency_late_store_def entry1_def)
  have est: "estimate_wait_time emergency_late_store ''d1'' = 15"
    by (simp add: estimate_wait_time_def emergency_late_store_def)
  note t1 = get_queue_position_rank [of "''p9''" emergency_late_store entry1 "\<lambda>x. False"]
  note t2 = get_queue_position_rank [of "''p1''" emergency_late_store entry1 "\<lambda>x. False"]
  from t1 a have c1: "get_queue_position emergency_late_store ''p9'' = Inl Not_in_queue"
    by blast
  from t2 w f obtain p where p:
    "get_queue_position emergency_late_store ''p1'' =
       Inr \<lparr>position = p, pos_doctor_id = doctor_id entry1,
            estimated_wait_minutes = estimate_wait_time emergency_late_store (doctor_id entry1)\<rparr>"
    "length (filter (\<lambda>x. doctor_id x = doctor_id entry1 \<and> joined_at x < joined_at entry1)
          (queue_tbl emergency_late_store)) < p"
    "p \<le> length (filter (\<lambda>x. doctor_id x = doctor_id entry1 \<and> joined_at x \<le> joined_at entry1)
          (queue_tbl emergency_late_store))"
    by blast
  from p(2,3) c have "p = 1"
    by simp
  with p(1) est have c2: "get_queue_position emergency_late_store ''p1'' =
     Inr \<lparr>position = 1, pos_doctor_id = ''d1'', estimated_wait_minutes = 15\<rparr>"
    by (simp add: entry1_def)
  have l: "map queue_id (get_doctor_queue emergency_late_store ''d1'') = [3, 1]"
    by (simp add: get_doctor_queue_def emergency_late_store_def entry1_def user_get_def
        clinic_users_def)
  from c1 w f c2 l show ?thesis
    by simp
qed

section \<open>The estimate\<close>

lemma round_half_even_of_int: "round_half_even (of_int j) = j"
  by (simp add: round_half_even_def)

lemma pow2_nonpos: "e \<le> 0 \<Longrightarrow> pow2 e = 1 / 2 ^ nat (- e)"
  by (cases "e = 0") (simp_all add: pow2_def)

lemma bitlen_le_53:
  assumes "0 < k" and "k < 2 ^ 53"
  shows "bitlen k \<le> 53"
proof -
  from assms(1) have "2 ^ nat (bitlen k - 1) \<le> k"
    using bitlen_bounds [of k] by simp
  with assms(2) have "(2::int) ^ nat (bitlen k - 1) < 2 ^ 53"
    by simp
  then have "nat (bitlen k - 1) < 53"
    by (simp only: power_strict_increasing_iff [of "2::int"] rel_simps)
  then show ?thesis
    by simp
qed

lemma ilog2_of_int_le:
  assumes "0 < k" and "k < 2 ^ 53"
  shows "ilog2 (of_int k) \<le> 52"
proof -
  have "quotient_of (of_int k) = (k, 1)"
    by simp
  moreover have "bitlen 1 = 1"
    by (simp add: bitlen_alt_def)
  moreover have "bitlen k \<le> 53"
    using assms by (rule bitlen_le_53)
  ultimately show ?thesis
    by (simp add: ilog2_def Let_def)
qed

lemma round_double_of_int:
  assumes "\<bar>k\<bar> < 2 ^ 53"
  shows "round_double (of_int k) = of_int k"
proof (cases "k = 0")
  case True
  then show ?thesis by (simp add: round_double_def)
next
  case False
  define e where "e = ilog2 \<bar>of_int k\<bar>"
  define m where "m = nat (52 - e)"
  have "\<bar>of_int k :: rat\<bar> = of_int \<bar>k\<bar>"
    by simp
  with False assms have "e \<le> 52"
    unfolding e_def using ilog2_of_int_le [of "\<bar>k\<bar>"] by simp
  then have u: "pow2 (e - 52) = 1 / 2 ^ m"
    unfolding m_def using pow2_nonpos [of "e - 52"] by simp
  have "(of_int k :: rat) / (1 / 2 ^ m) = of_int (k * 2 ^ m)"
    by simp
  then have "round_half_even (of_int k / pow2 (e - 52)) = k * 2 ^ m"
    unfolding u by (simp only: round_half_even_of_int)
  then have "of_int (round_half_even (of_int k / pow2 (e - 52))) * pow2 (e - 52) = (of_int k :: rat)"
    unfolding u by simp
  with False show ?thesis
    by (simp add: round_double_def Let_def e_def)
qed

lemma int_of_float_of_int: "int_of_float (of_int j) = j"
  by (simp add: int_of_float_def)

lemma float_estimate_exact:
  assumes "0 < len" and "len dvd dsum" and "\<bar>dsum div len\<bar> < 2 ^ 53" and "\<bar>n\<bar> < 2 ^ 53"
    and "\<bar>dsum div len * n\<bar> < 2 ^ 53"
  shows "int_of_float (float_mul (float_of_int n) (float_div dsum len)) = dsum div len * n"
proof -
  from assms(1,2) have "(of_int dsum :: rat) / of_int len = of_int (dsum div len)"
    by auto
  with assms(3) have "float_div dsum len = of_int (dsum div len)"
    by (simp add: float_div_def round_double_of_int)
  moreover from assms(4) have "float_of_int n = of_int n"
    by (simp add: float_of_int_def round_double_of_int)
  moreover have "(of_int n :: rat) * of_int (dsum div len) = of_int (dsum div len * n)"
    by simp
  ultimately have "float_mul (float_of_int n) (float_div dsum len) = of_int (dsum div len * n)"
    using assms(5) by (simp only: float_mul_def round_double_of_int)
  then show ?thesis
    by (simp only: int_of_float_of_int)
qed

text \<open>
  C2 (as stated): with history, the estimate is the mean duration times the queue
  length, truncated. With eleven durations that sum to 15 and eleven entries in the
  queue the mean times the queue length is 15; the estimator returns 14, as the quotient
  15 / 11 is rounded to a double before it is multiplied by 11.
\<close>

theorem estimate_wait_time_rounding_counterexample:
  "estimate_wait_time rounding_store ''d1'' = 14 \<and> spec_wait_time rounding_store ''d1'' = 15"
  by code_simp

lemma estimate_wait_time_default:
  "doctor_durations s doctor = [] \<Longrightarrow> estimate_wait_time s doctor = 15"
  by (simp add: estimate_wait_time_def Let_def)

lemma estimate_wait_time_float:
  "doctor_durations s doctor \<noteq> [] \<Longrightarrow>
   estimate_wait_time s doctor =
     int_of_float (float_mul (float_of_int (doctor_queue_length s doctor))
       (float_div (sum_list (doctor_durations s doctor)) (int (length (doctor_durations s doctor)))))"
  by (auto simp: estimate_wait_time_def Let_def List.map_filter_simps)

lemma spec_wait_time_exact:
  assumes "doctor_durations s doctor \<noteq> []"
    and "int (length (doctor_durations s doctor)) dvd sum_list (doctor_durations s doctor)"
  shows "spec_wait_time s doctor =
     sum_list (doctor_durations s doctor) div int (length (doctor_durations s doctor)) *
     doctor_queue_length s doctor"
proof -
  let ?ds = "doctor_durations s doctor"
  from assms(1) have "int (length ?ds) \<noteq> 0"
    by simp
  with assms(2) have "(of_int (sum_list ?ds) :: rat) / of_int (int (length ?ds)) =
      of_int (sum_list ?ds div int (length ?ds))"
    by auto
  then have "(of_int (sum_list ?ds) :: rat) / of_int (int (length ?ds)) *
      of_int (doctor_queue_length s doctor) =
      of_int (sum_list ?ds div int (length ?ds) * doctor_queue_length s doctor)"
    by (simp only: of_int_mult)
  with assms(1) show ?thesis
    by (simp only: spec_wait_time_def Let_def int_of_float_of_int if_False)
qed

text \<open>
  C2 (amended): for every doctor\_id the estimator returns 15 when the doctor has no
  non-null historical duration, whatever the length of the queue. Otherwise it returns
  \<open>int(queue_length * (sum / len))\<close> as computed in double precision: the quotient and
  then the product are each rounded to the nearest double before the truncation. When
  the mean is a whole number and the mean, the queue length and their product are below
  \<open>2^53\<close> in magnitude, this is the mean times the queue length, as the specification
  has it; durations 10, 20, 30 with two entries in the queue give 40.
\<close>

theorem estimate_wait_time_value:
  "(doctor_durations s doctor = [] \<longrightarrow> estimate_wait_time s doctor = 15) \<and>
   (doctor_durations s doctor \<noteq> [] \<longrightarrow>
      estimate_wait_time s doctor =
        int_of_float (float_mul (float_of_int (doctor_queue_length s doctor))
          (float_div (sum_list (doctor_durations s doctor))
            (int (length (doctor_durations s doctor)))))) \<and>
   (doctor_durations s doctor \<noteq> [] \<and>
    int (length (doctor_durations s doctor)) dvd sum_list (doctor_durations s doctor) \<and>
    \<bar>sum_list (doctor_durations s doctor) div int (length (doctor_durations s doctor))\<bar> < 2 ^ 53 \<and>
    doctor_queue_length s doctor < 2 ^ 53 \<and>
    \<bar>sum_list (doctor_durations s doctor) div int (length (doctor_durations s doctor)) *
      doctor_queue_length s doctor\<bar> < 2 ^ 53 \<longrightarrow>
      estimate_wait_time s doctor =
        sum_list (doctor_durations s doctor) div int (length (doctor_durations s doctor)) *
        doctor_queue_length s doctor \<and>
      estimate_wait_time s doctor = spec_wait_time s doctor)"
proof (intro conjI impI)
  assume "doctor_durations s doctor = []"
  then show "estimate_wait_time s doctor = 15"
    by (rule estimate_wait_time_default)
next
  assume "doctor_durations s doctor \<noteq> []"
  then show "estimate_wait_time s doctor =
        int_of_float (float_mul (float_of_int (doctor_queue_length s doctor))
          (float_div (sum_list (doctor_durations s doctor))
            (int (length (doctor_durations s doctor)))))"
    by (rule estimate_wait_time_float)
next
  let ?ds = "doctor_durations s doctor"
  let ?n = "doctor_queue_length s doctor"
  assume a: "?ds \<noteq> [] \<and> int (length ?ds) dvd sum_list ?ds \<and>
    \<bar>sum_list ?ds div int (length ?ds)\<bar> < 2 ^ 53 \<and> ?n < 2 ^ 53 \<and>
    \<bar>sum_list ?ds div int (length ?ds) * ?n\<bar> < 2 ^ 53"
  then have "0 < int (length ?ds)" and "\<bar>?n\<bar> < 2 ^ 53"
    by simp_all
  with a have x: "int_of_float (float_mul (float_of_int ?n) (float_div (sum_list ?ds) (int (length ?ds)))) =
      sum_list ?ds div int (length ?ds) * ?n"
    by (intro float_estimate_exact) simp_all
  from a have y: "estimate_wait_time s doctor =
      int_of_float (float_mul (float_of_int ?n) (float_div (sum_list ?ds) (int (length ?ds))))"
    by (intro estimate_wait_time_float) simp
  from y x show e: "estimate_wait_time s doctor = sum_list ?ds div int (length ?ds) * ?n"
    by (rule trans)
  from a have "spec_wait_time s doctor = sum_list ?ds div int (length ?ds) * ?n"
    by (intro spec_wait_time_exact) simp_all
  with e show "estimate_wait_time s doctor = spec_wait_time s doctor"
    by simp
qed

theorem estimate_wait_time_value_witness:
  "doctor_durations history_store ''d1'' = [10, 20, 30] \<and>
   doctor_queue_length history_store ''d1'' = 2 \<and>
   estimate_wait_time history_store ''d1'' = 40 \<and>
   spec_wait_time history_store ''d1'' = 40 \<and>
   doctor_durations history_store ''d2'' = [] \<and>
   estimate_wait_time history_store ''d2'' = 15"
proof -
  have d: "doctor_durations history_store ''d1'' = [10, 20, 30]"
    by (simp add: history_store_def visit_def List.map_filter_simps)
  have n: "doctor_queue_length history_store ''d1'' = 2"
    by (simp add: history_store_def waiting_def)
  have d2: "doctor_durations history_store ''d2'' = []"
    by (simp add: history_store_def visit_def List.map_filter_simps)
  note t1 = estimate_wait_time_value [where s = history_store and doctor = "''d1''"]
  note t2 = estimate_wait_time_value [where s = history_store and doctor = "''d2''"]
  have h: "doctor_durations history_store ''d1'' \<noteq> [] \<and>
    int (length (doctor_durations history_store ''d1'')) dvd
      sum_list (doctor_durations history_store ''d1'') \<and>
    \<bar>sum_list (doctor_durations history_store ''d1'') div
      int (length (doctor_durations history_store ''d1''))\<bar> < 2 ^ 53 \<and>
    doctor_queue_length history_store ''d1'' < 2 ^ 53 \<and>
    \<bar>sum_list (doctor_durations history_store ''d1'') div
      int (length (doctor_durations history_store ''d1'')) *
      doctor_queue_length history_store ''d1''\<bar> < 2 ^ 53"
    unfolding d n by simp
  from t1 h have "estimate_wait_time history_store ''d1'' =
        sum_list (doctor_durations history_store ''d1'') div
          int (length (doctor_durations history_store ''d1'')) *
        doctor_queue_length history_store ''d1''"
    and "estimate_wait_time history_store ''d1'' = spec_wait_time history_store ''d1''"
    by blast+
  then have e: "estimate_wait_time history_store ''d1'' = 40"
    and sp: "spec_wait_time history_store ''d1'' = 40"
    unfolding d n by simp_all
  from t2 d2 have e2: "estimate_wait_time history_store ''d2'' = 15"
    by blast
  from d n e sp d2 e2 show ?thesis
    by blast
qed

end
